theory Spec2Isabelle
  imports Complex_Main "HOL-Library.Sublist" "HOL-Library.Multiset"
begin

section \<open>Data model of the client\<close>

text \<open>
  \<^verbatim>\<open>type: 'expense' | 'income'\<close> is a union of two string literals, and the type filter
  of the dashboard, \<^verbatim>\<open>'all' | 'expense' | 'income'\<close>, adds the literal \<^verbatim>\<open>'all'\<close> to it:
  \<open>Only k\<close> stands for the literal that \<open>k\<close> stands for, so that
  \<^verbatim>\<open>t.type === filterType\<close> is \<open>Only (type t) = filterType\<close>.
\<close>

datatype ttype = Expense | Income

datatype filterType = All | Only ttype

text \<open>The joined \<^verbatim>\<open>category:categories(name, color)\<close> of a loaded transaction.\<close>

record category_ref =
  name :: string
  color :: string

section \<open>JavaScript numbers\<close>

text \<open>
  A JavaScript number is an IEEE 754 double (binary64). \<open>Finite r\<close> is the finite double
  whose value is the rational \<open>r\<close>; the two zeros, which \<^verbatim>\<open>===\<close> does not tell apart,
  are one value here. The operations below return doubles when they are given doubles.
\<close>

datatype number = Finite rat | PosInfinity | NegInfinity | NaN

text \<open>The integer nearest to a rational, the even one of the two when they are as near.\<close>

definition round_half_even :: "rat \<Rightarrow> int" where
  "round_half_even x =
     (let f = \<lfloor>x\<rfloor>; d = x - of_int f
      in if d < 1 / 2 then f
         else if 1 / 2 < d then f + 1
         else if even f then f else f + 1)"

text \<open>
  For \<open>a > 0\<close>, the exponent \<open>k\<close> with \<open>2 ^ k \<le> a < 2 ^ (k + 1)\<close>, found by halving
  or doubling \<open>a\<close> until it lies between 1 and 2. The search gives up after \<open>n\<close> steps;
  \<open>round64\<close> allows 1100, and a number that needs more lies beyond the largest double
  or below half of the smallest one, which the exponent reached by then shows as well.
\<close>

fun binade :: "nat \<Rightarrow> rat \<Rightarrow> int" where
  "binade 0 a = 0"
| "binade (Suc n) a =
     (if 2 \<le> a then binade n (a / 2) + 1
      else if a < 1 then binade n (a * 2) - 1
      else 0)"

definition pow2 :: "int \<Rightarrow> rat" where
  "pow2 e = (if 0 \<le> e then 2 ^ nat e else 1 / 2 ^ nat (- e))"

text \<open>
  Rounding to nearest, ties to even: the double that an operation returns for the exact
  result \<open>r\<close>, and the double that a decimal literal of JSON denotes. A double has a
  significand of 53 bits, so in the binade \<open>k\<close> the doubles are the multiples of
  \<open>2 ^ (k - 52)\<close>; below \<open>2 ^ - 1022\<close> they are the multiples of \<open>2 ^ - 1074\<close>; a
  result that rounds to \<open>2 ^ 1024\<close> or more is an infinity (\<open>None\<close> for the magnitude
  of a number that is not 0). The sign is kept.
\<close>

definition round_magnitude :: "rat \<Rightarrow> rat option" where
  "round_magnitude a =
     (let k = binade 1100 a;
          e = (if k < - 1022 then - 1074 else k - 52);
          n = round_half_even (a / pow2 e)
      in if 1024 \<le> k \<or> (k = 1023 \<and> n = 2 ^ 53) then None
         else Some (of_int n * pow2 e))"

definition round64 :: "rat \<Rightarrow> number" where
  "round64 r =
     (if r = 0 then Finite 0
      else (case round_magnitude \<bar>r\<bar> of
              None \<Rightarrow> if r < 0 then NegInfinity else PosInfinity
            | Some m \<Rightarrow> Finite (if r < 0 then - m else m)))"

text \<open>
  The operators \<^verbatim>\<open>+\<close> and \<^verbatim>\<open>-\<close> of JavaScript on numbers, and the literal
  \<^verbatim>\<open>0\<close>: the exact sum of two finite doubles, rounded.
\<close>

instantiation number :: "{zero, plus, uminus, minus}"
begin

definition zero_number :: number where
  "zero_number = Finite 0"

fun plus_number :: "number \<Rightarrow> number \<Rightarrow> number" where
  "plus_number NaN y = NaN"
| "plus_number x NaN = NaN"
| "plus_number PosInfinity NegInfinity = NaN"
| "plus_number NegInfinity PosInfinity = NaN"
| "plus_number PosInfinity y = PosInfinity"
| "plus_number NegInfinity y = NegInfinity"
| "plus_number x PosInfinity = PosInfinity"
| "plus_number x NegInfinity = NegInfinity"
| "plus_number (Finite x) (Finite y) = round64 (x + y)"

fun uminus_number :: "number \<Rightarrow> number" where
  "uminus_number (Finite x) = Finite (- x)"
| "uminus_number PosInfinity = NegInfinity"
| "uminus_number NegInfinity = PosInfinity"
| "uminus_number NaN = NaN"

definition minus_number :: "number \<Rightarrow> number \<Rightarrow> number" where
  "minus_number x y = x + (- y)"

instance ..

end




text \<open>
  \<^verbatim>\<open>interface Transaction\<close> of Dashboard.tsx. \<open>amount\<close> is a JavaScript number: the
  double that the JSON of the store denotes for a value of the column
  \<^verbatim>\<open>amount numeric(10, 2)\<close>. \<open>date\<close> is the string the store sends. An absent and a
  null \<open>category\<close> are both \<open>None\<close>.
\<close>

record transaction =
  id :: string
  amount :: number
  type :: ttype
  description :: string
  date :: string
  category_id :: "string option"
  category :: "category_ref option"

section \<open>Dashboard: the filtered view and its totals\<close>

text \<open>
  \<^verbatim>\<open>applyFilters\<close> (Dashboard.tsx, lines 100-112 and 377-382). A string is truthy when
  it is not empty, so \<^verbatim>\<open>if (selectedMonth)\<close> tests \<open>selectedMonth \<noteq> []\<close>;
  \<^verbatim>\<open>startsWith\<close> is \<open>prefix\<close>. The state it reads is passed in, the list it stores
  with \<^verbatim>\<open>setFilteredTransactions\<close> is returned.
\<close>

definition applyFilters :: "transaction list \<Rightarrow> filterType \<Rightarrow> string \<Rightarrow> transaction list" where
  "applyFilters ts ft selectedMonth =
     (let filtered = ts;
          filtered = (if ft \<noteq> All
                      then filter (\<lambda>t. Only (transaction.type t) = ft) filtered
                      else filtered);
          filtered = (if selectedMonth \<noteq> []
                      then filter (\<lambda>t. prefix selectedMonth (date t)) filtered
                      else filtered)
      in filtered)"

record totals =
  income :: number
  expenses :: number
  balance :: number

text \<open>
  \<^verbatim>\<open>calculateTotals\<close> (Dashboard.tsx, lines 126-136 and 396-404):
  \<^verbatim>\<open>reduce((sum, t) => sum + t.amount, 0)\<close> is a left fold from 0, and its \<open>+\<close>, like
  the \<open>-\<close> of the balance, is the operator on numbers: every step rounds.
\<close>

definition calculateTotals :: "transaction list \<Rightarrow> totals" where
  "calculateTotals filteredTransactions =
     (let income' = foldl (\<lambda>sum t. sum + amount t) 0
                  (filter (\<lambda>t. transaction.type t = Income) filteredTransactions);
          expenses' = foldl (\<lambda>sum t. sum + amount t) 0
                  (filter (\<lambda>t. transaction.type t = Expense) filteredTransactions)
      in \<lparr>income = income', expenses = expenses', balance = income' - expenses'\<rparr>)"

text \<open>The amounts that each of the two sums adds, in the order of the list.\<close>

definition income_amounts :: "transaction list \<Rightarrow> number list" where
  "income_amounts ts = map amount (filter (\<lambda>t. transaction.type t = Income) ts)"


section \<open>TransactionList: grouping by date\<close>

text \<open>
  The accumulator of \<^verbatim>\<open>transactions.reduce(..., {} as Record<string, Transaction[]>)\<close>
  (TransactionList.tsx, lines 50-57) is an object used as a dictionary. It is modelled as
  an association list with one entry per own key, in the order in which the keys were
  first written: the order in which \<^verbatim>\<open>Object.keys\<close> lists keys that are not array
  indices. (A key that is an array index, as the string \<^verbatim>\<open>2024\<close> is, would be listed
  before them; the sort that follows gives one result for every order of the keys as
  long as their time values differ.)
\<close>

type_synonym groups = "(string \<times> transaction list) list"

datatype js_error = TypeError

text \<open>
  The object literal \<^verbatim>\<open>{}\<close> inherits the properties of \<^verbatim>\<open>Object.prototype\<close>. For a
  date string that is one of their names, \<^verbatim>\<open>acc[date]\<close> is the inherited value, which is
  truthy and has no \<^verbatim>\<open>push\<close>: the callback throws a TypeError.
\<close>

definition objectPrototypeKeys :: "string list" where
  "objectPrototypeKeys =
     [''constructor'', ''hasOwnProperty'', ''isPrototypeOf'', ''propertyIsEnumerable'',
      ''toLocaleString'', ''toString'', ''valueOf'', ''__proto__'',
      ''__defineGetter__'', ''__defineSetter__'', ''__lookupGetter__'', ''__lookupSetter__'']"

text \<open>
  \<^verbatim>\<open>if (!acc[date]) { acc[date] = []; }  acc[date].push(transaction);\<close> on an own key or
  a fresh key: an existing group gets the transaction at its end, a fresh key is added
  after the keys already there.
\<close>

fun push_transaction :: "string \<Rightarrow> transaction \<Rightarrow> groups \<Rightarrow> groups" where
  "push_transaction d t [] = [(d, [t])]"
| "push_transaction d t ((k, g) # acc) =
     (if k = d then (k, g @ [t]) # acc else (k, g) # push_transaction d t acc)"

definition group_step :: "groups \<Rightarrow> transaction \<Rightarrow> js_error + groups" where
  "group_step acc t =
     (let d = date t
      in if d \<in> set objectPrototypeKeys then Inl TypeError
         else Inr (push_transaction d t acc))"

fun reduce_groups :: "groups \<Rightarrow> transaction list \<Rightarrow> js_error + groups" where
  "reduce_groups acc [] = Inr acc"
| "reduce_groups acc (t # ts) =
     (case group_step acc t of
        Inl e \<Rightarrow> Inl e
      | Inr acc' \<Rightarrow> reduce_groups acc' ts)"

definition groupedTransactions :: "transaction list \<Rightarrow> js_error + groups" where
  "groupedTransactions ts = reduce_groups [] ts"

text \<open>
  A stable insertion sort by a three-way comparison: \<open>cmp x y \<le> 0\<close> leaves \<open>x\<close> before
  \<open>y\<close>. \<^verbatim>\<open>Array.prototype.sort\<close> is stable, and so is the order in which the model lets
  the store answer an \<^verbatim>\<open>ORDER BY\<close>; where the comparison is a total preorder, every
  stable sort returns this list.
\<close>

fun insert_stable :: "('a \<Rightarrow> 'a \<Rightarrow> int) \<Rightarrow> 'a \<Rightarrow> 'a list \<Rightarrow> 'a list" where
  "insert_stable cmp x [] = [x]"
| "insert_stable cmp x (y # ys) =
     (if cmp x y \<le> 0 then x # y # ys else y # insert_stable cmp x ys)"

definition stable_sort :: "('a \<Rightarrow> 'a \<Rightarrow> int) \<Rightarrow> 'a list \<Rightarrow> 'a list" where
  "stable_sort cmp xs = foldr (insert_stable cmp) xs []"

text \<open>
  \<^verbatim>\<open>xs.sort(comparefn)\<close>: a comparison that yields NaN (here \<open>None\<close>) counts as 0.
\<close>

definition array_sort :: "('a \<Rightarrow> 'a \<Rightarrow> int option) \<Rightarrow> 'a list \<Rightarrow> 'a list" where
  "array_sort comparefn xs =
     stable_sort (\<lambda>x y. case comparefn x y of None \<Rightarrow> 0 | Some v \<Rightarrow> v) xs"

text \<open>
  \<^verbatim>\<open>(a, b) => new Date(b).getTime() - new Date(a).getTime()\<close> (lines 59-61). The parser
  of \<^verbatim>\<open>Date\<close> belongs to the platform, so \<open>getTime\<close> is a parameter: the time value of
  a date string in milliseconds, \<open>None\<close> for NaN (an invalid date). A difference with
  NaN is NaN.
\<close>

definition compareDates :: "(string \<Rightarrow> int option) \<Rightarrow> string \<Rightarrow> string \<Rightarrow> int option" where
  "compareDates getTime a b =
     (case (getTime b, getTime a) of
        (Some tb, Some ta) \<Rightarrow> Some (tb - ta)
      | _ \<Rightarrow> None)"

definition sortedDates :: "(string \<Rightarrow> int option) \<Rightarrow> groups \<Rightarrow> string list" where
  "sortedDates getTime acc = array_sort (compareDates getTime) (map fst acc)"

text \<open>
  \<^verbatim>\<open>sortedDates.map((date) => ... groupedTransactions[date].map(...))\<close> (lines 65-71):
  the groups in the order of the sorted keys. A key without a group would make
  \<^verbatim>\<open>groupedTransactions[date]\<close> undefined and \<^verbatim>\<open>.map\<close> throw.
\<close>

fun groups_in_order :: "groups \<Rightarrow> string list \<Rightarrow> js_error + groups" where
  "groups_in_order acc [] = Inr []"
| "groups_in_order acc (d # ds) =
     (case map_of acc d of
        None \<Rightarrow> Inl TypeError
      | Some g \<Rightarrow>
          (case groups_in_order acc ds of
             Inl e \<Rightarrow> Inl e
           | Inr gs \<Rightarrow> Inr ((d, g) # gs)))"

definition groupByDate :: "(string \<Rightarrow> int option) \<Rightarrow> transaction list \<Rightarrow> js_error + groups" where
  "groupByDate getTime ts =
     (case groupedTransactions ts of
        Inl e \<Rightarrow> Inl e
      | Inr acc \<Rightarrow> groups_in_order acc (sortedDates getTime acc))"

text \<open>
  What the component renders: the "No transactions yet" placeholder returned early for an
  empty list (lines 42-48), the dated groups otherwise.
\<close>

datatype rendered = EmptyState | DateGroups groups

definition TransactionList :: "(string \<Rightarrow> int option) \<Rightarrow> transaction list \<Rightarrow> js_error + rendered" where
  "TransactionList getTime ts =
     (if length ts = 0 then Inr EmptyState
      else (case groupByDate getTime ts of
              Inl e \<Rightarrow> Inl e
            | Inr gs \<Rightarrow> Inr (DateGroups gs)))"

section \<open>The store: schema and queries\<close>

text \<open>
  The tables of the migration (lines 41-63). A uuid is a string, a \<^verbatim>\<open>date\<close> a day
  number and a \<^verbatim>\<open>timestamptz\<close> a number of microseconds. The application never writes
  \<open>created_at\<close> or \<open>updated_at\<close>, so the column defaults give them values.
\<close>

record categories_row =
  id :: string
  user_id :: string
  name :: string
  type :: ttype
  color :: string
  icon :: string
  created_at :: int

record transactions_row =
  id :: string
  user_id :: string
  category_id :: "string option"
  amount :: rat
  type :: ttype
  description :: string
  date :: int
  created_at :: int
  updated_at :: int

record database =
  categories_table :: "categories_row list"
  transactions_table :: "transactions_row list"

text \<open>
  What a foreign key can declare for the deletion of a referenced row, and what SQL does
  for each: without an action the deletion of a referenced row is refused,
  \<^verbatim>\<open>ON DELETE CASCADE\<close> deletes the referencing rows, \<^verbatim>\<open>ON DELETE SET NULL\<close> updates
  them. The schema declares (line 56)
  \<^verbatim>\<open>category_id uuid REFERENCES categories(id) ON DELETE SET NULL\<close>.
\<close>

datatype referential_action = NoAction | Cascade | SetNull

datatype db_error = ForeignKeyViolation

definition transactions_category_id_on_delete :: referential_action where
  "transactions_category_id_on_delete = SetNull"

text \<open>
  The trigger \<^verbatim>\<open>update_transactions_updated_at\<close> (lines 119-132) runs
  \<^verbatim>\<open>update_updated_at_column\<close> before every update of a row of \<^verbatim>\<open>transactions\<close>, the
  update of a referential action included.
\<close>

definition update_updated_at_column :: "int \<Rightarrow> transactions_row \<Rightarrow> transactions_row" where
  "update_updated_at_column now NEW = NEW\<lparr>updated_at := now\<rparr>"

text \<open>
  \<^verbatim>\<open>DELETE FROM categories WHERE id = cid\<close> as the user \<open>uid\<close> at time \<open>now\<close>. The
  policy "Users can delete own categories" restricts the statement to the rows of
  \<open>uid\<close>.
\<close>

definition delete_categories ::
  "referential_action \<Rightarrow> int \<Rightarrow> string \<Rightarrow> string \<Rightarrow> database \<Rightarrow> db_error + database" where
  "delete_categories action now uid cid db =
     (let deleted = filter (\<lambda>c. categories_row.id c = cid \<and> categories_row.user_id c = uid)
                      (categories_table db);
          kept = filter (\<lambda>c. \<not> (categories_row.id c = cid \<and> categories_row.user_id c = uid))
                   (categories_table db);
          refers = (\<lambda>t. deleted \<noteq> [] \<and> category_id t = Some cid)
      in case action of
           NoAction \<Rightarrow>
             if filter refers (transactions_table db) \<noteq> [] then Inl ForeignKeyViolation
             else Inr (db\<lparr>categories_table := kept\<rparr>)
         | Cascade \<Rightarrow>
             Inr (db\<lparr>categories_table := kept,
                     transactions_table := filter (\<lambda>t. \<not> refers t) (transactions_table db)\<rparr>)
         | SetNull \<Rightarrow>
             Inr (db\<lparr>categories_table := kept,
                     transactions_table :=
                       map (\<lambda>t. if refers t
                                then update_updated_at_column now (t\<lparr>category_id := None\<rparr>)
                                else t)
                         (transactions_table db)\<rparr>))"

text \<open>
  \<^verbatim>\<open>supabase.from('categories').delete().eq('id', id)\<close> against this schema.
\<close>

definition deleteCategory :: "int \<Rightarrow> string \<Rightarrow> string \<Rightarrow> database \<Rightarrow> db_error + database" where
  "deleteCategory now uid cid db =
     delete_categories transactions_category_id_on_delete now uid cid db"

text \<open>
  \<^verbatim>\<open>handleDelete\<close> (CategoryManager.tsx, lines 110-115): nothing is sent unless the
  user confirms; the client returns an error in its result, which the handler does not
  read, and a refused statement leaves the store as it was.
\<close>

definition handleDelete :: "bool \<Rightarrow> int \<Rightarrow> string \<Rightarrow> string \<Rightarrow> database \<Rightarrow> database" where
  "handleDelete confirmed now uid cid db =
     (if confirmed
      then (case deleteCategory now uid cid db of
              Inl e \<Rightarrow> db
            | Inr db' \<Rightarrow> db')
      else db)"

text \<open>
  The embedded \<^verbatim>\<open>category:categories(name, color)\<close> of the select of
  \<^verbatim>\<open>loadTransactions\<close>: the category the row references, when the user can see one.
\<close>

definition embed_category :: "database \<Rightarrow> string \<Rightarrow> transactions_row \<Rightarrow> category_ref option" where
  "embed_category db uid t =
     (case category_id t of
        None \<Rightarrow> None
      | Some k \<Rightarrow>
          (case filter (\<lambda>c. categories_row.id c = k \<and> categories_row.user_id c = uid)
                  (categories_table db) of
             [] \<Rightarrow> None
           | c # _ \<Rightarrow> Some \<lparr>category_ref.name = categories_row.name c,
                            category_ref.color = categories_row.color c\<rparr>))"

text \<open>
  \<^verbatim>\<open>ORDER BY\<close> over a list of clauses, each a column and its \<^verbatim>\<open>ascending\<close> option: the
  first clause on which two rows differ decides.
\<close>

fun compare_rows :: "(('r \<Rightarrow> int) \<times> bool) list \<Rightarrow> 'r \<Rightarrow> 'r \<Rightarrow> int" where
  "compare_rows [] a b = 0"
| "compare_rows ((col, ascending) # cs) a b =
     (if col a = col b then compare_rows cs a b
      else if ascending then col a - col b
      else col b - col a)"

definition order_by :: "(('r \<Rightarrow> int) \<times> bool) list \<Rightarrow> 'r list \<Rightarrow> 'r list" where
  "order_by cs rows = stable_sort (compare_rows cs) rows"

text \<open>
  The query of \<^verbatim>\<open>loadTransactions\<close> (Dashboard.tsx, lines 85-92):
  \<^verbatim>\<open>.order('date', { ascending: false }).order('created_at', { ascending: false })\<close>
  over the rows the policy "Users can view own transactions" lets \<open>uid\<close> see.
\<close>

definition loadTransactions_order :: "((transactions_row \<Rightarrow> int) \<times> bool) list" where
  "loadTransactions_order = [(transactions_row.date, False), (transactions_row.created_at, False)]"

definition loadTransactions_query ::
  "database \<Rightarrow> string \<Rightarrow> (transactions_row \<times> category_ref option) list" where
  "loadTransactions_query db uid =
     map (\<lambda>t. (t, embed_category db uid t))
       (order_by loadTransactions_order
          (filter (\<lambda>t. transactions_row.user_id t = uid) (transactions_table db)))"

section \<open>Dashboard: seeding the default categories\<close>

text \<open>
  The objects of the literal \<^verbatim>\<open>defaultCategories\<close> (Dashboard.tsx, lines 61-72) and the
  rows \<^verbatim>\<open>{ ...cat, user_id: user.id }\<close> that are inserted.
\<close>

record default_category =
  name :: string
  type :: ttype
  color :: string
  icon :: string

record category_insert = default_category +
  user_id :: string

definition defaultCategories :: "default_category list" where
  "defaultCategories =
     [\<lparr>name = ''Food & Dining'', type = Expense, color = ''#ef4444'', icon = ''utensils''\<rparr>,
      \<lparr>name = ''Transportation'', type = Expense, color = ''#f97316'', icon = ''car''\<rparr>,
      \<lparr>name = ''Shopping'', type = Expense, color = ''#ec4899'', icon = ''shopping-bag''\<rparr>,
      \<lparr>name = ''Entertainment'', type = Expense, color = ''#8b5cf6'', icon = ''film''\<rparr>,
      \<lparr>name = ''Bills & Utilities'', type = Expense, color = ''#06b6d4'', icon = ''receipt''\<rparr>,
      \<lparr>name = ''Healthcare'', type = Expense, color = ''#10b981'', icon = ''heart''\<rparr>,
      \<lparr>name = ''Salary'', type = Income, color = ''#22c55e'', icon = ''banknote''\<rparr>,
      \<lparr>name = ''Freelance'', type = Income, color = ''#3b82f6'', icon = ''briefcase''\<rparr>,
      \<lparr>name = ''Investments'', type = Income, color = ''#14b8a6'', icon = ''trending-up''\<rparr>,
      \<lparr>name = ''Other Income'', type = Income, color = ''#84cc16'', icon = ''plus''\<rparr>]"

definition with_user_id :: "string \<Rightarrow> default_category \<Rightarrow> category_insert" where
  "with_user_id uid cat =
     \<lparr>name = default_category.name cat, type = default_category.type cat,
      color = default_category.color cat, icon = default_category.icon cat, user_id = uid\<rparr>"

text \<open>
  \<^verbatim>\<open>initializeDefaultCategories\<close> (lines 51-81). \<open>user\<close> is the id of the signed-in
  user, if any; \<open>existingCategories\<close> is the \<^verbatim>\<open>data\<close> of the select, which is null
  (\<open>None\<close>) when the request failed, so that
  \<^verbatim>\<open>!existingCategories || existingCategories.length === 0\<close> holds of \<open>None\<close> and of
  the empty list. The result is the list of the inserts it sends, each with its rows.
\<close>

definition initializeDefaultCategories ::
  "string option \<Rightarrow> string list option \<Rightarrow> category_insert list list" where
  "initializeDefaultCategories user existingCategories =
     (case user of
        None \<Rightarrow> []
      | Some uid \<Rightarrow>
          (case existingCategories of
             None \<Rightarrow> [map (with_user_id uid) defaultCategories]
           | Some rows \<Rightarrow>
               if length rows = 0 then [map (with_user_id uid) defaultCategories] else []))"

text \<open>
  \<^verbatim>\<open>.from('categories').select('id').eq('user_id', user.id).limit(1)\<close>, and the load of
  the dashboard for the user \<open>uid\<close>: \<open>ok\<close> tells whether the select succeeded.
\<close>

definition select_category_ids :: "database \<Rightarrow> string \<Rightarrow> string list" where
  "select_category_ids db uid =
     take 1 (map categories_row.id
       (filter (\<lambda>c. categories_row.user_id c = uid) (categories_table db)))"

definition initializeDefaultCategories_on_load ::
  "bool \<Rightarrow> database \<Rightarrow> string \<Rightarrow> category_insert list list" where
  "initializeDefaultCategories_on_load ok db uid =
     initializeDefaultCategories (Some uid)
       (if ok then Some (select_category_ids db uid) else None)"

section \<open>Dashboard: loading the transactions\<close>

text \<open>
  What the state \<^verbatim>\<open>transactions\<close> can hold at run time. Its type is
  \<^verbatim>\<open>Transaction[]\<close>, but the body of a response is of type \<^verbatim>\<open>any\<close>: it is an array
  of transactions, or it is null, a number, a boolean or an object such as the report of
  an error, none of which can be iterated. (An array of other values and a string, which
  can be iterated, are not represented.)
\<close>

datatype loaded = Rows "transaction list" | NotIterable

text \<open>The part of the state of the component that a load and the filters touch.\<close>

record dashboard =
  transactions :: loaded
  filteredTransactions :: "transaction list"
  filterType :: filterType
  selectedMonth :: string
  loading :: bool

text \<open>
  \<^verbatim>\<open>loadTransactions\<close> over the store client (lines 83-98): \<open>data\<close> is the array of
  the rows, or null when the request failed, and \<^verbatim>\<open>if (data)\<close> keeps null out of the
  state.
\<close>

definition loadTransactions :: "transaction list option \<Rightarrow> dashboard \<Rightarrow> dashboard" where
  "loadTransactions data s =
     (let s = s\<lparr>loading := True\<rparr>;
          s = (case data of
                 Some d \<Rightarrow> s\<lparr>transactions := Rows d\<rparr>
               | None \<Rightarrow> s)
      in s\<lparr>loading := False\<rparr>)"

text \<open>
  \<^verbatim>\<open>loadTransactions\<close> over \<^verbatim>\<open>fetch\<close> (lines 364-375). The request is rejected,
  or it is answered with a status that is \<^verbatim>\<open>ok\<close> or not and a body that parses as JSON
  (\<open>Some\<close> of the value) or not. Each of the three failures is thrown and caught by the
  one \<^verbatim>\<open>catch\<close>, which logs it. A body that parses is stored as it is:
  \<^verbatim>\<open>const data = await response.json(); setTransactions(data);\<close> has no test of
  \<open>data\<close>.
\<close>

datatype fetch_outcome = Rejected | Response bool "loaded option"

definition loadTransactions_fetch :: "fetch_outcome \<Rightarrow> dashboard \<Rightarrow> dashboard" where
  "loadTransactions_fetch r s =
     (let s = s\<lparr>loading := True\<rparr>;
          s = (case r of
                 Rejected \<Rightarrow> s
               | Response ok body \<Rightarrow>
                   if \<not> ok then s
                   else (case body of
                           None \<Rightarrow> s
                         | Some data \<Rightarrow> s\<lparr>transactions := data\<rparr>))
      in s\<lparr>loading := False\<rparr>)"

text \<open>
  The effect \<^verbatim>\<open>useEffect(() => { applyFilters(); }, [transactions, filterType,
  selectedMonth])\<close>, which runs after a render in which \<open>transactions\<close> has changed.
  \<^verbatim>\<open>let filtered = [...transactions]\<close> throws a TypeError when the state cannot be
  iterated; nothing catches it, and the component does not render again.
\<close>

definition applyFilters_effect :: "dashboard \<Rightarrow> js_error + dashboard" where
  "applyFilters_effect s =
     (case dashboard.transactions s of
        NotIterable \<Rightarrow> Inl TypeError
      | Rows ts \<Rightarrow>
          Inr (s\<lparr>filteredTransactions :=
                   applyFilters ts (dashboard.filterType s) (selectedMonth s)\<rparr>))"

section \<open>AddTransactionModal: the category of a transaction\<close>

text \<open>
  The state of the form that the choice of a category reads and writes. \<open>categoryId\<close>
  is the empty string while nothing is selected.
\<close>

record modal =
  type :: ttype
  categoryId :: string
  categories :: "categories_row list"

text \<open>
  \<^verbatim>\<open>.from('categories').select('*').eq('type', type).order('name')\<close> (lines 562-566),
  for the user \<open>uid\<close>. \<open>collate\<close> is the three-way comparison of the collation of the
  store.
\<close>

definition loadCategories_query ::
  "(string \<Rightarrow> string \<Rightarrow> int) \<Rightarrow> database \<Rightarrow> string \<Rightarrow> ttype \<Rightarrow> categories_row list" where
  "loadCategories_query collate db uid ty =
     stable_sort (\<lambda>a b. collate (categories_row.name a) (categories_row.name b))
       (filter (\<lambda>c. categories_row.type c = ty)
          (filter (\<lambda>c. categories_row.user_id c = uid) (categories_table db)))"

text \<open>
  \<^verbatim>\<open>loadCategories\<close> (lines 561-574): \<open>data\<close> is null when the request failed;
  \<open>editTransaction\<close> is the transaction being edited, if any.
\<close>

definition loadCategories ::
  "categories_row list option \<Rightarrow> transaction option \<Rightarrow> modal \<Rightarrow> modal" where
  "loadCategories data editTransaction m =
     (case data of
        None \<Rightarrow> m
      | Some d \<Rightarrow>
          (let m' = m\<lparr>categories := d\<rparr>
           in case d of
                [] \<Rightarrow> m'
              | c # _ \<Rightarrow>
                  if editTransaction = None \<and> categoryId m = []
                  then m'\<lparr>categoryId := categories_row.id c\<rparr>
                  else m'))"

text \<open>
  A click on the button of the kind \<open>k\<close> in the open form: \<^verbatim>\<open>setType(k)\<close>, and, as
  \<open>type\<close> is a dependency of the effect (lines 555-559), \<^verbatim>\<open>loadCategories()\<close> for the
  new kind when the kind has changed. \<open>ok\<close> tells whether the select succeeds.
\<close>

definition switch_type ::
  "bool \<Rightarrow> (string \<Rightarrow> string \<Rightarrow> int) \<Rightarrow> database \<Rightarrow> string \<Rightarrow> transaction option
     \<Rightarrow> ttype \<Rightarrow> modal \<Rightarrow> modal" where
  "switch_type ok collate db uid editTransaction k m =
     (if k = modal.type m then m
      else (let m = m\<lparr>modal.type := k\<rparr>;
                data = (if ok then Some (loadCategories_query collate db uid (modal.type m))
                        else None)
            in loadCategories data editTransaction m))"

section \<open>Example data\<close>

text \<open>
  The three transactions of scenario A and a second one of its first day, in an order
  that is not the order of their dates, with the time values of the three dates (UTC
  midnight, in milliseconds).
\<close>

definition example_getTime :: "string \<Rightarrow> int option" where
  "example_getTime s =
     (if s = ''2024-05-01'' then Some 1714521600000
      else if s = ''2024-05-02'' then Some 1714608000000
      else if s = ''2024-06-01'' then Some 1717200000000
      else None)"

definition example_t1 :: transaction where
  "example_t1 = \<lparr>transaction.id = ''t1'', amount = Finite 50, type = Expense,
     description = ''lunch'', date = ''2024-05-01'', category_id = None, category = None\<rparr>"

definition example_t2 :: transaction where
  "example_t2 = \<lparr>transaction.id = ''t2'', amount = Finite 1000, type = Income,
     description = ''pay'', date = ''2024-05-02'', category_id = None, category = None\<rparr>"

definition example_t3 :: transaction where
  "example_t3 = \<lparr>transaction.id = ''t3'', amount = Finite 30, type = Expense,
     description = ''taxi'', date = ''2024-06-01'', category_id = None, category = None\<rparr>"

definition example_t4 :: transaction where
  "example_t4 = \<lparr>transaction.id = ''t4'', amount = Finite (5 / 2), type = Expense,
     description = ''tea'', date = ''2024-05-01'', category_id = None, category = None\<rparr>"

definition example_transactions :: "transaction list" where
  "example_transactions = [example_t1, example_t3, example_t4, example_t2]"

text \<open>
  Transactions whose amounts the store sends as \<^verbatim>\<open>0.1\<close>, \<^verbatim>\<open>0.2\<close> and \<^verbatim>\<open>0.3\<close>: the
  numbers are the doubles nearest to these decimals.
\<close>

definition example_dime :: "string \<Rightarrow> ttype \<Rightarrow> rat \<Rightarrow> transaction" where
  "example_dime i k r = \<lparr>transaction.id = i, amount = round64 r, type = k,
     description = ''coins'', date = ''2024-05-01'', category_id = None, category = None\<rparr>"



text \<open>Three incomes of 99999999.99, the largest value of the column.\<close>

definition example_largest :: "transaction list" where
  "example_largest =
     [example_dime ''m1'' Income (9999999999 / 100), example_dime ''m2'' Income (9999999999 / 100),
      example_dime ''m3'' Income (9999999999 / 100)]"

text \<open>
  A store in which the user \<open>u1\<close> owns an expense category \<open>C1\<close>, referenced by the
  transaction \<open>X\<close> (scenario D), and an income category \<open>C2\<close>, referenced by \<open>Y\<close>.
\<close>

definition example_C1 :: categories_row where
  "example_C1 = \<lparr>categories_row.id = ''C1'', user_id = ''u1'', name = ''Food'', type = Expense,
     color = ''#ef4444'', icon = ''circle'', created_at = 10\<rparr>"

definition example_C2 :: categories_row where
  "example_C2 = \<lparr>categories_row.id = ''C2'', user_id = ''u1'', name = ''Salary'', type = Income,
     color = ''#22c55e'', icon = ''circle'', created_at = 20\<rparr>"

definition example_X :: transactions_row where
  "example_X = \<lparr>transactions_row.id = ''X'', user_id = ''u1'', category_id = Some ''C1'',
     amount = 50, type = Expense, description = ''lunch'', date = 19844,
     created_at = 100, updated_at = 100\<rparr>"

definition example_Y :: transactions_row where
  "example_Y = \<lparr>transactions_row.id = ''Y'', user_id = ''u1'', category_id = Some ''C2'',
     amount = 1000, type = Income, description = ''pay'', date = 19845,
     created_at = 110, updated_at = 110\<rparr>"

definition example_db :: database where
  "example_db = \<lparr>categories_table = [example_C1, example_C2],
     transactions_table = [example_X, example_Y]\<rparr>"

text \<open>
  The form for a new transaction as it stands after it was opened: the kind is expense
  and the first expense category is selected.
\<close>

definition example_modal :: modal where
  "example_modal = \<lparr>modal.type = Expense, categoryId = ''C1'', categories = [example_C1]\<rparr>"

section \<open>The example data\<close>

lemmas example_defs = example_transactions_def example_t1_def example_t2_def example_t3_def
  example_t4_def example_getTime_def

lemmas example_db_defs = example_db_def example_C1_def example_C2_def example_X_def example_Y_def

section \<open>Sums of numbers\<close>

lemma binade_unfold:
  "binade n a =
     (if n = 0 then 0
      else if 2 \<le> a then binade (n - 1) (a / 2) + 1
      else if a < 1 then binade (n - 1) (a * 2) - 1
      else 0)"
  by (cases n) simp_all

lemma floor_rat_numeral:
  "\<lfloor>(numeral a / numeral b :: rat)\<rfloor> = numeral a div numeral b"
  using floor_divide_of_int_eq [of "numeral a" "numeral b", where ?'a = rat] by simp

text \<open>
  The doubles of the decimals 0.1, 0.2, 0.3, 99999999.99 and 299999999.97, as a parser of
  JSON returns them.
\<close>

lemma round64_decimals:
  "round64 (1 / 10) = Finite (3602879701896397 / 36028797018963968)"
  "round64 (1 / 5) = Finite (3602879701896397 / 18014398509481984)"
  "round64 (3 / 10) = Finite (5404319552844595 / 18014398509481984)"
  "round64 (9999999999 / 100) = Finite (6710886399328911 / 67108864)"
  "round64 (29999999997 / 100) = Finite (1258291199874171 / 4194304)"
  by (simp add: round64_def round_magnitude_def Let_def binade_unfold del: binade.simps;
      (simp add: pow2_def)?;
      (simp add: round_half_even_def Let_def floor_rat_numeral)?)+

text \<open>
  The roundings that the additions of the examples need: of the doubles of 0.1 and 0.2,
  which are doubles and stay as they are, of their sum, of the sums 0.2 + 0.3, 0.1 + 0.5
  and (0.1 + 0.2) + 0.3, the last one a tie, and of once, twice and three times the double
  of 99999999.99.
\<close>

lemma round64_doubles:
  "round64 (3602879701896397 / 36028797018963968) = Finite (3602879701896397 / 36028797018963968)"
  "round64 (3602879701896397 / 18014398509481984) = Finite (3602879701896397 / 18014398509481984)"
  "round64 (10808639105689191 / 36028797018963968) = Finite (1351079888211149 / 4503599627370496)"
  "round64 (1 / 2) = Finite (1 / 2)"
  "round64 (21617278211378381 / 36028797018963968) = Finite (5404319552844595 / 9007199254740992)"
  "round64 (10808639105689191 / 18014398509481984) = Finite (1351079888211149 / 2251799813685248)"
  "round64 (6710886399328911 / 67108864) = Finite (6710886399328911 / 67108864)"
  "round64 (6710886399328911 / 33554432) = Finite (6710886399328911 / 33554432)"
  "round64 (20132659197986733 / 67108864) = Finite (5033164799496683 / 16777216)"
  by (simp add: round64_def round_magnitude_def Let_def binade_unfold del: binade.simps;
      (simp add: pow2_def)?;
      (simp add: round_half_even_def Let_def floor_rat_numeral)?)+

text \<open>Whole numbers of this size are doubles.\<close>

lemma round64_whole:
  "round64 (50) = Finite (50)"
  "round64 (80) = Finite (80)"
  "round64 (- 80) = Finite (- 80)"
  "round64 (1000) = Finite (1000)"
  "round64 (950) = Finite (950)"
  "round64 (1050) = Finite (1050)"
  "round64 (1080) = Finite (1080)"
  by (simp add: round64_def round_magnitude_def Let_def binade_unfold del: binade.simps;
      (simp add: pow2_def)?;
      (simp add: round_half_even_def Let_def floor_rat_numeral)?)+

lemmas round64_values = round64_decimals round64_doubles round64_whole

lemma round64_zero: "round64 0 = Finite 0"
  by (simp add: round64_def)










lemma zero_minus_zero: "(0::number) - 0 = 0"
  by (simp add: minus_number_def zero_number_def round64_zero)



section \<open>Totals\<close>

lemma reduce_amounts:
  "foldl (\<lambda>sum t. sum + transaction.amount t) a xs = foldl (+) a (map transaction.amount xs)"
  by (simp add: foldl_map)

lemma income_of_totals:
  "income (calculateTotals ts) = foldl (+) 0 (income_amounts ts)"
  by (simp add: calculateTotals_def Let_def reduce_amounts income_amounts_def)














section \<open>Composition of the two filters\<close>

lemma applyFilters_filter:
  "applyFilters T F P =
     filter (\<lambda>t. (F = All \<or> Only (transaction.type t) = F)
                 \<and> (P = [] \<or> prefix P (transaction.date t))) T"
  by (simp add: applyFilters_def Let_def)

text \<open>
  C2. For every list \<open>T\<close>, type filter \<open>F\<close> and period \<open>P\<close> (the empty string is "no
  period"), the filtered view is the intersection of the view filtered by type alone and
  the view filtered by period alone: the members of the first that occur in the second,
  in their order. The two tests are joined by "and", and the result is a sublist of
  \<open>T\<close> in the order of \<open>T\<close>.
\<close>

theorem applyFilters_composition:
  "applyFilters T F P = filter (\<lambda>t. t \<in> set (applyFilters T All P)) (applyFilters T F [])
   \<and> set (applyFilters T F P) = set (applyFilters T F []) \<inter> set (applyFilters T All P)
   \<and> applyFilters T F P =
       filter (\<lambda>t. (F = All \<or> Only (transaction.type t) = F)
                   \<and> (P = [] \<or> prefix P (transaction.date t))) T
   \<and> subseq (applyFilters T F P) T"
proof -
  have a: "applyFilters T F P = filter (\<lambda>t. t \<in> set (applyFilters T All P)) (applyFilters T F [])"
    unfolding applyFilters_filter filter_filter by (rule filter_cong) auto
  have b: "set (applyFilters T F P) = set (applyFilters T F []) \<inter> set (applyFilters T All P)"
    unfolding applyFilters_filter by auto
  have c: "subseq (applyFilters T F P) T"
    unfolding applyFilters_filter by simp
  from a b c applyFilters_filter show ?thesis by blast
qed

text \<open>
  Scenarios A and B of the specification; the balance of B is negative. Their amounts are
  whole numbers, which the additions do not round.
\<close>

lemma scenario_A:
  "applyFilters [example_t1, example_t2, example_t3] All ''2024-05'' = [example_t1, example_t2]
   \<and> calculateTotals [example_t1, example_t2]
       = \<lparr>income = Finite 1000, expenses = Finite 50, balance = Finite 950\<rparr>"
  by (simp add: applyFilters_def calculateTotals_def Let_def example_t1_def example_t2_def
      example_t3_def zero_number_def minus_number_def round64_values)

lemma scenario_B:
  "applyFilters [example_t1, example_t2, example_t3] (Only Expense) [] = [example_t1, example_t3]
   \<and> calculateTotals [example_t1, example_t3]
       = \<lparr>income = Finite 0, expenses = Finite 80, balance = Finite (- 80)\<rparr>"
  by (simp add: applyFilters_def calculateTotals_def Let_def example_t1_def example_t2_def
      example_t3_def zero_number_def minus_number_def round64_values)

text \<open>
  A view in which the rounding of the additions shows: three incomes of 99999999.99 add
  up to the double 299999999.96999997, which is not the double of 299999999.97.
\<close>

lemma largest_amounts:
  "income (calculateTotals example_largest) = Finite (5033164799496683 / 16777216)
   \<and> round64 (29999999997 / 100) = Finite (1258291199874171 / 4194304)
   \<and> (1258291199874171 / 4194304 :: rat) \<noteq> 5033164799496683 / 16777216"
  by (simp add: income_of_totals income_amounts_def example_largest_def example_dime_def
      zero_number_def round64_values)

section \<open>Stable sorting\<close>

lemma stable_sort_Nil: "stable_sort cmp [] = []"
  by (simp add: stable_sort_def)

lemma stable_sort_Cons: "stable_sort cmp (x # xs) = insert_stable cmp x (stable_sort cmp xs)"
  by (simp add: stable_sort_def)

lemma mset_insert_stable: "mset (insert_stable cmp x ys) = add_mset x (mset ys)"
  by (induction ys) simp_all

lemma mset_stable_sort: "mset (stable_sort cmp xs) = mset xs"
  by (induction xs) (simp_all add: stable_sort_Nil stable_sort_Cons mset_insert_stable)

lemma set_stable_sort: "set (stable_sort cmp xs) = set xs"
  using mset_stable_sort [of cmp xs] by (metis set_mset_mset)

lemma distinct_stable_sort: "distinct (stable_sort cmp xs) = distinct xs"
  using mset_stable_sort [of cmp xs] by (metis mset_eq_imp_distinct_iff)

lemma sorted_insert_stable:
  assumes tot: "\<And>a b. a \<in> S \<Longrightarrow> b \<in> S \<Longrightarrow> cmp a b \<le> 0 \<or> cmp b a \<le> 0"
      and tr: "\<And>a b c. a \<in> S \<Longrightarrow> b \<in> S \<Longrightarrow> c \<in> S \<Longrightarrow> cmp a b \<le> 0 \<Longrightarrow> cmp b c \<le> 0 \<Longrightarrow> cmp a c \<le> 0"
      and "x \<in> S" and "set ys \<subseteq> S" and "sorted_wrt (\<lambda>a b. cmp a b \<le> 0) ys"
    shows "sorted_wrt (\<lambda>a b. cmp a b \<le> 0) (insert_stable cmp x ys)"
  using assms(3-)
proof (induction ys)
  case Nil
  then show ?case by simp
next
  case (Cons y ys)
  show ?case
  proof (cases "cmp x y \<le> 0")
    case True
    have "cmp x z \<le> 0" if "z \<in> set ys" for z
      using that Cons.prems True tr [of x y z] by auto
    with True Cons.prems show ?thesis by auto
  next
    case False
    with tot [of x y] Cons.prems have yx: "cmp y x \<le> 0" by auto
    have "set (insert_stable cmp x ys) = insert x (set ys)"
      using mset_insert_stable [of cmp x ys] by (metis set_mset_add_mset_insert set_mset_mset)
    with False yx Cons show ?thesis by auto
  qed
qed

lemma sorted_stable_sort:
  assumes tot: "\<And>a b. a \<in> S \<Longrightarrow> b \<in> S \<Longrightarrow> cmp a b \<le> 0 \<or> cmp b a \<le> 0"
      and tr: "\<And>a b c. a \<in> S \<Longrightarrow> b \<in> S \<Longrightarrow> c \<in> S \<Longrightarrow> cmp a b \<le> 0 \<Longrightarrow> cmp b c \<le> 0 \<Longrightarrow> cmp a c \<le> 0"
      and "set xs \<subseteq> S"
    shows "sorted_wrt (\<lambda>a b. cmp a b \<le> 0) (stable_sort cmp xs)"
  using assms(3)
proof (induction xs)
  case Nil
  show ?case by (simp add: stable_sort_Nil)
next
  case (Cons x xs)
  then have "sorted_wrt (\<lambda>a b. cmp a b \<le> 0) (stable_sort cmp xs)" by simp
  moreover have "set (stable_sort cmp xs) \<subseteq> S" using Cons.prems by (simp add: set_stable_sort)
  moreover have "x \<in> S" using Cons.prems by simp
  ultimately show ?case
    unfolding stable_sort_Cons using tot tr by (intro sorted_insert_stable [where S = S]) blast+
qed

section \<open>The order of the loaded transactions\<close>

lemma loadTransactions_order_le:
  "compare_rows loadTransactions_order a b \<le> 0 \<longleftrightarrow>
     transactions_row.date b < transactions_row.date a
     \<or> (transactions_row.date a = transactions_row.date b
        \<and> transactions_row.created_at b \<le> transactions_row.created_at a)"
  by (auto simp: loadTransactions_order_def)

text \<open>
  C7. The query of \<open>loadTransactions\<close> returns the transactions of the owner, each
  once, ordered by date descending; among transactions of the same date the one created
  later comes first.
\<close>

theorem loadTransactions_query_order:
  "sorted_wrt
     (\<lambda>a b. transactions_row.date b < transactions_row.date a
        \<or> (transactions_row.date a = transactions_row.date b
           \<and> transactions_row.created_at b \<le> transactions_row.created_at a))
     (map fst (loadTransactions_query db uid))
   \<and> mset (map fst (loadTransactions_query db uid)) =
       mset (filter (\<lambda>t. transactions_row.user_id t = uid) (transactions_table db))"
proof -
  let ?rows = "filter (\<lambda>t. transactions_row.user_id t = uid) (transactions_table db)"
  have fst: "map fst (loadTransactions_query db uid) = order_by loadTransactions_order ?rows"
    by (simp add: loadTransactions_query_def comp_def)
  have "sorted_wrt (\<lambda>a b. compare_rows loadTransactions_order a b \<le> 0)
          (stable_sort (compare_rows loadTransactions_order) ?rows)"
    by (rule sorted_stable_sort [where S = UNIV]) (auto simp: loadTransactions_order_le)
  then have "sorted_wrt
     (\<lambda>a b. transactions_row.date b < transactions_row.date a
        \<or> (transactions_row.date a = transactions_row.date b
           \<and> transactions_row.created_at b \<le> transactions_row.created_at a))
     (order_by loadTransactions_order ?rows)"
    by (simp add: loadTransactions_order_le order_by_def)
  moreover have "mset (order_by loadTransactions_order ?rows) = mset ?rows"
    by (simp add: order_by_def mset_stable_sort)
  ultimately show ?thesis unfolding fst by simp
qed

section \<open>Grouping by date\<close>

lemma keys_push_transaction:
  "map fst (push_transaction d t acc) =
     (if d \<in> fst ` set acc then map fst acc else map fst acc @ [d])"
  by (induction acc) (auto split: if_splits)

lemma map_of_push_transaction:
  "map_of (push_transaction d t acc) k =
     (if k = d then Some ((case map_of acc d of None \<Rightarrow> [] | Some g \<Rightarrow> g) @ [t])
      else map_of acc k)"
  by (induction acc) auto

lemma reduce_groups_invariant:
  assumes "\<forall>t\<in>set ts. transaction.date t \<notin> set objectPrototypeKeys"
      and "distinct (map fst acc)"
      and "\<forall>k. map_of acc k =
             (if k \<in> transaction.date ` set seen
              then Some (filter (\<lambda>t. transaction.date t = k) seen) else None)"
    shows "\<exists>acc'. reduce_groups acc ts = Inr acc' \<and> distinct (map fst acc')
             \<and> (\<forall>k. map_of acc' k =
                  (if k \<in> transaction.date ` set (seen @ ts)
                   then Some (filter (\<lambda>t. transaction.date t = k) (seen @ ts)) else None))"
  using assms
proof (induction ts arbitrary: acc seen)
  case Nil
  then show ?case by simp
next
  case (Cons t ts)
  let ?d = "transaction.date t"
  let ?acc = "push_transaction ?d t acc"
  have step: "group_step acc t = Inr ?acc"
    using Cons.prems(1) by (simp add: group_step_def)
  have dom: "fst ` set acc = transaction.date ` set seen"
  proof -
    have "fst ` set acc = dom (map_of acc)" by (simp add: dom_map_of_conv_image_fst)
    also have "\<dots> = transaction.date ` set seen"
      using Cons.prems(3) by (auto simp: dom_def)
    finally show ?thesis .
  qed
  have d: "distinct (map fst ?acc)"
    using Cons.prems(2) by (auto simp: keys_push_transaction)
  have m: "\<forall>k. map_of ?acc k =
             (if k \<in> transaction.date ` set (seen @ [t])
              then Some (filter (\<lambda>t. transaction.date t = k) (seen @ [t])) else None)"
  proof
    fix k
    show "map_of ?acc k =
             (if k \<in> transaction.date ` set (seen @ [t])
              then Some (filter (\<lambda>t. transaction.date t = k) (seen @ [t])) else None)"
    proof (cases "k = ?d")
      case True
      show ?thesis
      proof (cases "?d \<in> transaction.date ` set seen")
        case True
        with Cons.prems(3) \<open>k = ?d\<close> show ?thesis
          by (simp add: map_of_push_transaction)
      next
        case False
        then have "\<forall>u\<in>set seen. transaction.date u \<noteq> ?d"
          by (metis imageI)
        then have "filter (\<lambda>u. transaction.date u = ?d) seen = []"
          by (simp add: filter_empty_conv)
        with False Cons.prems(3) \<open>k = ?d\<close> show ?thesis
          by (simp add: map_of_push_transaction)
      qed
    next
      case False
      with Cons.prems(3) show ?thesis
        by (auto simp: map_of_push_transaction)
    qed
  qed
  have "\<forall>t\<in>set ts. transaction.date t \<notin> set objectPrototypeKeys"
    using Cons.prems(1) by simp
  from Cons.IH [OF this d m]
  obtain acc' where r: "reduce_groups ?acc ts = Inr acc'" and d': "distinct (map fst acc')"
    and m': "\<forall>k. map_of acc' k =
               (if k \<in> transaction.date ` set ((seen @ [t]) @ ts)
                then Some (filter (\<lambda>t. transaction.date t = k) ((seen @ [t]) @ ts)) else None)"
    by blast
  have "reduce_groups acc (t # ts) = Inr acc'" using step r by simp
  moreover have "(seen @ [t]) @ ts = seen @ t # ts" by simp
  ultimately show ?case using d' m' by metis
qed

lemma groupedTransactions_groups:
  assumes "\<forall>t\<in>set ts. transaction.date t \<notin> set objectPrototypeKeys"
  shows "\<exists>acc. groupedTransactions ts = Inr acc \<and> distinct (map fst acc)
           \<and> set (map fst acc) = transaction.date ` set ts
           \<and> (\<forall>k\<in>transaction.date ` set ts.
                 map_of acc k = Some (filter (\<lambda>t. transaction.date t = k) ts))"
proof -
  from reduce_groups_invariant [OF assms, of "[]" "[]"]
  obtain acc where acc: "reduce_groups [] ts = Inr acc" "distinct (map fst acc)"
    and m: "\<forall>k. map_of acc k =
              (if k \<in> transaction.date ` set ts
               then Some (filter (\<lambda>t. transaction.date t = k) ts) else None)"
    by auto
  have "set (map fst acc) = dom (map_of acc)" by (simp add: dom_map_of_conv_image_fst)
  also have "\<dots> = transaction.date ` set ts" using m by (auto simp: dom_def)
  finally have "set (map fst acc) = transaction.date ` set ts" .
  with acc m show ?thesis by (auto simp: groupedTransactions_def)
qed

lemma groups_in_order_found:
  assumes "\<forall>d\<in>set ds. map_of acc d = Some (f d)"
  shows "groups_in_order acc ds = Inr (map (\<lambda>d. (d, f d)) ds)"
  using assms by (induction ds) simp_all

lemma mset_filter_key_split:
  assumes "d \<notin> set ds"
  shows "mset (filter (\<lambda>t. f t = d) ts) + mset (filter (\<lambda>t. f t \<in> set ds) ts)
         = mset (filter (\<lambda>t. f t \<in> set (d # ds)) ts)"
  using assms by (induction ts) auto

lemma mset_concat_groups:
  assumes "distinct ds"
  shows "mset (concat (map (\<lambda>d. filter (\<lambda>t. f t = d) ts) ds))
         = mset (filter (\<lambda>t. f t \<in> set ds) ts)"
  using assms
proof (induction ds)
  case Nil
  show ?case by simp
next
  case (Cons d ds)
  then have "mset (concat (map (\<lambda>d. filter (\<lambda>t. f t = d) ts) (d # ds)))
      = mset (filter (\<lambda>t. f t = d) ts) + mset (filter (\<lambda>t. f t \<in> set ds) ts)"
    by simp
  also have "\<dots> = mset (filter (\<lambda>t. f t \<in> set (d # ds)) ts)"
    using Cons.prems by (intro mset_filter_key_split) simp
  finally show ?case .
qed

lemma sorted_wrt_distinct:
  "sorted_wrt P xs \<Longrightarrow> distinct xs \<Longrightarrow> sorted_wrt (\<lambda>a b. P a b \<and> a \<noteq> b) xs"
  by (induction xs) auto

lemma array_sort_dates_descending:
  assumes valid: "\<forall>d\<in>set ks. getTime d \<noteq> None"
      and inj: "inj_on getTime (set ks)"
      and dist: "distinct ks"
    shows "sorted_wrt (\<lambda>a b. \<exists>x y. getTime a = Some x \<and> getTime b = Some y \<and> y < x)
             (array_sort (compareDates getTime) ks)"
proof -
  let ?S = "set ks"
  let ?cmp = "\<lambda>x y. case compareDates getTime x y of None \<Rightarrow> (0::int) | Some v \<Rightarrow> v"
  have le: "?cmp a b \<le> 0 \<longleftrightarrow> the (getTime b) \<le> the (getTime a)"
    if "a \<in> ?S" "b \<in> ?S" for a b
  proof -
    from valid that(1) have "getTime a \<noteq> None" by blast
    moreover from valid that(2) have "getTime b \<noteq> None" by blast
    ultimately obtain x y where "getTime a = Some x" "getTime b = Some y" by auto
    then show ?thesis by (simp add: compareDates_def)
  qed
  have "sorted_wrt (\<lambda>a b. ?cmp a b \<le> 0) (stable_sort ?cmp ks)"
  proof (rule sorted_stable_sort [where S = ?S])
    show "?cmp a b \<le> 0 \<or> ?cmp b a \<le> 0" if "a \<in> ?S" "b \<in> ?S" for a b
      using that le by auto
    show "?cmp a c \<le> 0" if "a \<in> ?S" "b \<in> ?S" "c \<in> ?S" "?cmp a b \<le> 0" "?cmp b c \<le> 0" for a b c
    proof -
      from that le [of a b] le [of b c]
      have "the (getTime c) \<le> the (getTime a)" by linarith
      with le [of a c] that show ?thesis by blast
    qed
  qed simp
  then have s: "sorted_wrt (\<lambda>a b. ?cmp a b \<le> 0) (array_sort (compareDates getTime) ks)"
    by (simp add: array_sort_def)
  have set: "set (array_sort (compareDates getTime) ks) = ?S"
    by (simp add: array_sort_def set_stable_sort)
  have "distinct (array_sort (compareDates getTime) ks)"
    using dist by (simp add: array_sort_def distinct_stable_sort)
  from sorted_wrt_distinct [OF s this]
  have "sorted_wrt (\<lambda>a b. ?cmp a b \<le> 0 \<and> a \<noteq> b) (array_sort (compareDates getTime) ks)" .
  then show ?thesis
  proof (rule sorted_wrt_mono_rel [rotated])
    fix a b
    assume a: "a \<in> set (array_sort (compareDates getTime) ks)" and b: "b \<in> set (array_sort (compareDates getTime) ks)"
      and ab: "?cmp a b \<le> 0 \<and> a \<noteq> b"
    from a b set have aS: "a \<in> ?S" and bS: "b \<in> ?S" by auto
    from valid aS have "getTime a \<noteq> None" by blast
    moreover from valid bS have "getTime b \<noteq> None" by blast
    ultimately obtain x y where xy: "getTime a = Some x" "getTime b = Some y" by auto
    from ab le [OF aS bS] xy have "y \<le> x" by simp
    moreover from ab inj aS bS have "getTime a \<noteq> getTime b" by (auto dest: inj_onD)
    ultimately show "\<exists>x y. getTime a = Some x \<and> getTime b = Some y \<and> y < x"
      using xy by auto
  qed
qed

lemma sortedDates_descending:
  assumes "\<forall>d\<in>set (map fst acc). getTime d \<noteq> None"
      and "inj_on getTime (set (map fst acc))"
      and "distinct (map fst acc)"
    shows "sorted_wrt (\<lambda>a b. \<exists>x y. getTime a = Some x \<and> getTime b = Some y \<and> y < x)
             (sortedDates getTime acc)"
  unfolding sortedDates_def using assms by (rule array_sort_dates_descending)

text \<open>
  The order in which the keys of the object are listed does not matter to the sorted
  list when the keys have time values that differ: two lists that are strictly sorted by
  the same order and have the same elements are equal.
\<close>

lemma strictly_sorted_unique:
  assumes "sorted_wrt R xs" and "sorted_wrt R ys" and "set xs = set ys"
      and irrefl: "\<And>a. \<not> R a a"
      and asym: "\<And>a b. R a b \<Longrightarrow> \<not> R b a"
    shows "xs = ys"
  using assms(1-3)
proof (induction xs arbitrary: ys)
  case Nil
  then show ?case by simp
next
  case (Cons x xs)
  then obtain y ys' where ys: "ys = y # ys'" by (cases ys) auto
  have xy: "x = y"
  proof (rule ccontr)
    assume ne: "x \<noteq> y"
    with Cons.prems(3) ys have "x \<in> set ys'" and "y \<in> set xs" by auto
    with Cons.prems(1,2) ys have "R y x" and "R x y" by auto
    with asym show False by blast
  qed
  have "x \<notin> set xs" using Cons.prems(1) irrefl by auto
  moreover have "y \<notin> set ys'" using Cons.prems(2) ys irrefl by auto
  ultimately have "set xs = set ys'" using Cons.prems(3) ys xy by auto
  moreover have "sorted_wrt R xs" and "sorted_wrt R ys'" using Cons.prems(1,2) ys by auto
  ultimately have "xs = ys'" by (intro Cons.IH)
  with xy ys show ?case by simp
qed

lemma array_sort_dates_any_key_order:
  assumes valid: "\<forall>d\<in>set ks. getTime d \<noteq> None"
      and inj: "inj_on getTime (set ks)"
      and "distinct ks" and "distinct ks'" and set: "set ks' = set ks"
    shows "array_sort (compareDates getTime) ks' = array_sort (compareDates getTime) ks"
proof (rule strictly_sorted_unique)
  show "sorted_wrt (\<lambda>a b. \<exists>x y. getTime a = Some x \<and> getTime b = Some y \<and> y < x)
          (array_sort (compareDates getTime) ks')"
    using assms by (intro array_sort_dates_descending) simp_all
  show "sorted_wrt (\<lambda>a b. \<exists>x y. getTime a = Some x \<and> getTime b = Some y \<and> y < x)
          (array_sort (compareDates getTime) ks)"
    using assms by (intro array_sort_dates_descending) simp_all
  show "set (array_sort (compareDates getTime) ks') = set (array_sort (compareDates getTime) ks)"
    using set by (simp add: array_sort_def set_stable_sort)
  show "\<not> (\<exists>x y. getTime a = Some x \<and> getTime a = Some y \<and> y < x)" for a
    by auto
  show "\<not> (\<exists>x y. getTime b = Some x \<and> getTime a = Some y \<and> y < x)"
    if "\<exists>x y. getTime a = Some x \<and> getTime b = Some y \<and> y < x" for a b
    using that by auto
qed

text \<open>
  C3. For a list of transactions whose date strings are dates (the platform gives each a
  time value, different strings get different time values, and none is the name of a
  property of \<^verbatim>\<open>Object.prototype\<close>), in whatever order, the grouping returns without
  an error: one group per date that occurs, each group holding exactly the transactions
  of its date in the order in which they stand in the input, so that the groups together
  hold every transaction of the input exactly once; and the groups are in strictly
  descending order of their dates.
\<close>

theorem groupByDate_partition:
  assumes proto: "\<forall>t\<in>set ts. transaction.date t \<notin> set objectPrototypeKeys"
      and valid: "\<forall>t\<in>set ts. getTime (transaction.date t) \<noteq> None"
      and inj: "inj_on getTime (transaction.date ` set ts)"
    shows "\<exists>gs. groupByDate getTime ts = Inr gs
      \<and> distinct (map fst gs)
      \<and> set (map fst gs) = transaction.date ` set ts
      \<and> gs = map (\<lambda>d. (d, filter (\<lambda>t. transaction.date t = d) ts)) (map fst gs)
      \<and> mset (concat (map snd gs)) = mset ts
      \<and> sorted_wrt (\<lambda>a b. \<exists>x y. getTime a = Some x \<and> getTime b = Some y \<and> y < x)
          (map fst gs)
      \<and> TransactionList getTime ts = Inr (if ts = [] then EmptyState else DateGroups gs)"
proof -
  from groupedTransactions_groups [OF proto]
  obtain acc where acc: "groupedTransactions ts = Inr acc" and dist: "distinct (map fst acc)"
    and keys: "set (map fst acc) = transaction.date ` set ts"
    and look: "\<forall>k\<in>transaction.date ` set ts.
                 map_of acc k = Some (filter (\<lambda>t. transaction.date t = k) ts)"
    by blast
  let ?ds = "sortedDates getTime acc"
  let ?gs = "map (\<lambda>d. (d, filter (\<lambda>t. transaction.date t = d) ts)) ?ds"
  have set_ds: "set ?ds = transaction.date ` set ts"
    using keys by (simp add: sortedDates_def array_sort_def set_stable_sort)
  have dist_ds: "distinct ?ds"
    using dist by (simp add: sortedDates_def array_sort_def distinct_stable_sort)
  have fst_gs: "map fst ?gs = ?ds" by (simp add: comp_def)
  have "groups_in_order acc ?ds = Inr ?gs"
    using look set_ds by (intro groups_in_order_found) simp
  then have 1: "groupByDate getTime ts = Inr ?gs"
    using acc by (simp add: groupByDate_def)
  have snd_gs: "map snd ?gs = map (\<lambda>d. filter (\<lambda>t. transaction.date t = d) ts) ?ds"
    by (simp add: comp_def)
  have "mset (concat (map snd ?gs)) = mset (filter (\<lambda>t. transaction.date t \<in> set ?ds) ts)"
    unfolding snd_gs by (rule mset_concat_groups [OF dist_ds])
  also have "\<dots> = mset ts" using set_ds by simp
  finally have 2: "mset (concat (map snd ?gs)) = mset ts" .
  have 3: "sorted_wrt (\<lambda>a b. \<exists>x y. getTime a = Some x \<and> getTime b = Some y \<and> y < x) ?ds"
    using valid inj dist keys by (intro sortedDates_descending) auto
  have 4: "distinct (map fst ?gs)" using dist_ds by (simp only: fst_gs)
  have 5: "set (map fst ?gs) = transaction.date ` set ts" using set_ds by (simp only: fst_gs)
  have 6: "?gs = map (\<lambda>d. (d, filter (\<lambda>t. transaction.date t = d) ts)) (map fst ?gs)"
    by (simp only: fst_gs)
  have 7: "sorted_wrt (\<lambda>a b. \<exists>x y. getTime a = Some x \<and> getTime b = Some y \<and> y < x)
             (map fst ?gs)"
    using 3 by (simp only: fst_gs)
  have 8: "TransactionList getTime ts = Inr (if ts = [] then EmptyState else DateGroups ?gs)"
    using 1 by (simp add: TransactionList_def)
  from 1 2 4 5 6 7 8 show ?thesis by blast
qed

text \<open>
  The hypotheses of the grouping theorem hold of the example, whose two transactions of
  1 May are not adjacent and whose dates are not in order.
\<close>

theorem groupByDate_partition_witness:
  "\<exists>gs. groupByDate example_getTime example_transactions = Inr gs
      \<and> distinct (map fst gs)
      \<and> set (map fst gs) = transaction.date ` set example_transactions
      \<and> gs = map (\<lambda>d. (d, filter (\<lambda>t. transaction.date t = d) example_transactions)) (map fst gs)
      \<and> mset (concat (map snd gs)) = mset example_transactions
      \<and> sorted_wrt (\<lambda>a b. \<exists>x y. example_getTime a = Some x \<and> example_getTime b = Some y \<and> y < x)
          (map fst gs)
      \<and> TransactionList example_getTime example_transactions =
          Inr (if example_transactions = [] then EmptyState else DateGroups gs)"
proof (rule groupByDate_partition)
  show "\<forall>t\<in>set example_transactions. transaction.date t \<notin> set objectPrototypeKeys"
    by (simp add: example_defs objectPrototypeKeys_def)
  show "\<forall>t\<in>set example_transactions. example_getTime (transaction.date t) \<noteq> None"
    by (simp add: example_defs)
  show "inj_on example_getTime (transaction.date ` set example_transactions)"
    by (auto simp: inj_on_def example_defs)
qed

lemma groupByDate_example:
  "groupByDate example_getTime example_transactions =
     Inr [(''2024-06-01'', [example_t3]), (''2024-05-02'', [example_t2]),
          (''2024-05-01'', [example_t1, example_t4])]"
  by (simp add: groupByDate_def groupedTransactions_def group_step_def objectPrototypeKeys_def
      sortedDates_def array_sort_def stable_sort_def compareDates_def example_defs Let_def)

section \<open>The empty view\<close>

text \<open>
  C8. For the empty filtered view the three totals are 0, the grouping yields no group,
  and the component renders its placeholder: each is a result, none an error.
\<close>

theorem empty_view:
  "calculateTotals [] = \<lparr>income = 0, expenses = 0, balance = 0\<rparr>
   \<and> groupByDate getTime [] = Inr []
   \<and> TransactionList getTime [] = Inr EmptyState"
  by (simp add: calculateTotals_def zero_minus_zero groupByDate_def groupedTransactions_def
      sortedDates_def array_sort_def stable_sort_def TransactionList_def)

section \<open>A failed load\<close>

text \<open>
  The load over the store client leaves the state as it was when no data arrived, and so
  does the load over \<^verbatim>\<open>fetch\<close> when the request is rejected, the status is not ok or
  the body does not parse; each ends with the loading flag cleared. A load that brings
  an array of rows replaces the list with it.
\<close>

lemma loadTransactions_paths:
  "loadTransactions None s = s\<lparr>loading := False\<rparr>
   \<and> loadTransactions (Some d) s = s\<lparr>dashboard.transactions := Rows d, loading := False\<rparr>
   \<and> loadTransactions_fetch Rejected s = s\<lparr>loading := False\<rparr>
   \<and> loadTransactions_fetch (Response False body) s = s\<lparr>loading := False\<rparr>
   \<and> loadTransactions_fetch (Response True None) s = s\<lparr>loading := False\<rparr>
   \<and> loadTransactions_fetch (Response True (Some (Rows d))) s =
       s\<lparr>dashboard.transactions := Rows d, loading := False\<rparr>"
  by (simp add: loadTransactions_def loadTransactions_fetch_def Let_def)

text \<open>
  C9. The load over \<^verbatim>\<open>fetch\<close> does not do what the claim says. When the store answers
  with a status that is ok and a body that is not an array (null, or the report of an
  error), the load does not leave the list as it was: it puts that value in its place,
  and the filter effect that runs next throws a TypeError, which nothing catches. The
  load over the store client receives null in that case and leaves the state as it was.
\<close>

theorem loadTransactions_fetch_stores_any_body:
  "loadTransactions_fetch (Response True (Some NotIterable)) s =
     s\<lparr>dashboard.transactions := NotIterable, loading := False\<rparr>
   \<and> applyFilters_effect (loadTransactions_fetch (Response True (Some NotIterable)) s)
       = Inl TypeError
   \<and> loadTransactions None s = s\<lparr>loading := False\<rparr>"
  by (simp add: loadTransactions_def loadTransactions_fetch_def applyFilters_effect_def Let_def)

section \<open>Deleting a category\<close>

lemma delete_categories_SetNull:
  assumes "c \<in> set (categories_table db)"
      and "categories_row.id c = cid" and "categories_row.user_id c = uid"
    shows "delete_categories SetNull now uid cid db =
       Inr (db\<lparr>categories_table :=
                 filter (\<lambda>c. \<not> (categories_row.id c = cid \<and> categories_row.user_id c = uid))
                   (categories_table db),
               transactions_table :=
                 map (\<lambda>t. if category_id t = Some cid
                          then t\<lparr>category_id := None, updated_at := now\<rparr> else t)
                   (transactions_table db)\<rparr>)"
proof -
  have "filter (\<lambda>c. categories_row.id c = cid \<and> categories_row.user_id c = uid)
          (categories_table db) \<noteq> []"
    using assms by (auto simp: filter_empty_conv)
  then show ?thesis
    by (simp add: delete_categories_def Let_def update_updated_at_column_def)
qed

text \<open>
  What the declared action decides: in the example store, where \<open>X\<close> references
  \<open>C1\<close>, the deletion of \<open>C1\<close> would be refused without an action and would delete
  \<open>X\<close> under \<^verbatim>\<open>ON DELETE CASCADE\<close>.
\<close>

lemma delete_categories_other_actions:
  "delete_categories NoAction 200 ''u1'' ''C1'' example_db = Inl ForeignKeyViolation
   \<and> delete_categories Cascade 200 ''u1'' ''C1'' example_db =
       Inr \<lparr>categories_table = [example_C2], transactions_table = [example_Y]\<rparr>"
  by (simp add: delete_categories_def Let_def example_db_def example_C1_def example_C2_def
      example_X_def example_Y_def)

text \<open>
  C4, as amended. Deleting a category that its owner holds does not fail and deletes no
  transaction: the table of transactions keeps its rows in their places, a row that
  referenced the category has its reference set to null and its \<open>updated_at\<close> set
  by the trigger to the time of the deletion, with every other field as it was, and any
  other row is unchanged. No row references the category afterwards, and the category
  of each such transaction resolves to none when the transactions are loaded.
\<close>

theorem deleteCategory_keeps_transactions:
  assumes "c \<in> set (categories_table db)"
      and "categories_row.id c = cid" and "categories_row.user_id c = uid"
    shows "\<exists>db'. deleteCategory now uid cid db = Inr db'
      \<and> handleDelete True now uid cid db = db'
      \<and> transactions_table db' =
          map (\<lambda>t. if category_id t = Some cid
                   then t\<lparr>category_id := None, updated_at := now\<rparr> else t)
            (transactions_table db)
      \<and> length (transactions_table db') = length (transactions_table db)
      \<and> list_all (\<lambda>t. category_id t \<noteq> Some cid) (transactions_table db')
      \<and> map (embed_category db' uid)
            (filter (\<lambda>t. category_id t = Some cid) (transactions_table db))
          = map (\<lambda>t. None) (filter (\<lambda>t. category_id t = Some cid) (transactions_table db))
      \<and> list_all (\<lambda>t. embed_category db' uid t = None)
            (map (\<lambda>t. t\<lparr>category_id := None, updated_at := now\<rparr>)
               (filter (\<lambda>t. category_id t = Some cid) (transactions_table db)))"
proof -
  let ?db' = "db\<lparr>categories_table :=
                 filter (\<lambda>c. \<not> (categories_row.id c = cid \<and> categories_row.user_id c = uid))
                   (categories_table db),
               transactions_table :=
                 map (\<lambda>t. if category_id t = Some cid
                          then t\<lparr>category_id := None, updated_at := now\<rparr> else t)
                   (transactions_table db)\<rparr>"
  have d: "deleteCategory now uid cid db = Inr ?db'"
    using delete_categories_SetNull [OF assms]
    by (simp add: deleteCategory_def transactions_category_id_on_delete_def)
  then have h: "handleDelete True now uid cid db = ?db'"
    by (simp add: handleDelete_def)
  have e: "embed_category ?db' uid t = None" if "category_id t = Some cid" for t
    using that by (simp add: embed_category_def)
  have 1: "map (embed_category ?db' uid)
            (filter (\<lambda>t. category_id t = Some cid) (transactions_table db))
          = map (\<lambda>t. None) (filter (\<lambda>t. category_id t = Some cid) (transactions_table db))"
  proof (rule map_cong [OF refl])
    fix t
    assume "t \<in> set (filter (\<lambda>t. category_id t = Some cid) (transactions_table db))"
    then have "category_id t = Some cid" by simp
    then show "embed_category ?db' uid t = None" by (rule e)
  qed
  have 2: "list_all (\<lambda>t. category_id t \<noteq> Some cid) (transactions_table ?db')"
    by (auto simp: list_all_iff)
  have 3: "list_all (\<lambda>t. embed_category ?db' uid t = None)
            (map (\<lambda>t. t\<lparr>category_id := None, updated_at := now\<rparr>)
               (filter (\<lambda>t. category_id t = Some cid) (transactions_table db)))"
    by (simp add: list_all_iff embed_category_def)
  from d h 1 2 3 show ?thesis by (intro exI [of _ ?db']) simp
qed

text \<open>
  The example store: deleting \<open>C1\<close> as its owner at time 200.
\<close>

theorem deleteCategory_keeps_transactions_witness:
  "\<exists>db'. deleteCategory 200 ''u1'' ''C1'' example_db = Inr db'
      \<and> handleDelete True 200 ''u1'' ''C1'' example_db = db'
      \<and> transactions_table db' =
          map (\<lambda>t. if category_id t = Some ''C1''
                   then t\<lparr>category_id := None, updated_at := 200\<rparr> else t)
            (transactions_table example_db)
      \<and> length (transactions_table db') = length (transactions_table example_db)
      \<and> list_all (\<lambda>t. category_id t \<noteq> Some ''C1'') (transactions_table db')
      \<and> map (embed_category db' ''u1'')
            (filter (\<lambda>t. category_id t = Some ''C1'') (transactions_table example_db))
          = map (\<lambda>t. None) (filter (\<lambda>t. category_id t = Some ''C1'') (transactions_table example_db))
      \<and> list_all (\<lambda>t. embed_category db' ''u1'' t = None)
            (map (\<lambda>t. t\<lparr>category_id := None, updated_at := 200\<rparr>)
               (filter (\<lambda>t. category_id t = Some ''C1'') (transactions_table example_db)))"
  by (rule deleteCategory_keeps_transactions [of example_C1]) (simp_all add: example_db_defs)

text \<open>
  In the example store the transaction \<open>X\<close> references \<open>C1\<close> and was last updated at
  time 100. After the deletion of \<open>C1\<close> at time 200 its row is not \<open>X\<close> with a null
  reference and every other field as before: \<open>updated_at\<close> is 200.
\<close>

theorem deleteCategory_changes_updated_at:
  "deleteCategory 200 ''u1'' ''C1'' example_db =
     Inr \<lparr>categories_table = [example_C2],
          transactions_table =
            [example_X\<lparr>category_id := None, updated_at := 200\<rparr>, example_Y]\<rparr>
   \<and> example_X\<lparr>category_id := None, updated_at := 200\<rparr> \<noteq> example_X\<lparr>category_id := None\<rparr>
   \<and> updated_at example_X = 100
   \<and> updated_at (example_X\<lparr>category_id := None, updated_at := 200\<rparr>) = 200"
  by (simp add: deleteCategory_def transactions_category_id_on_delete_def delete_categories_def
      update_updated_at_column_def Let_def example_db_defs)

section \<open>Seeding\<close>

lemma defaultCategories_counts:
  "length (map (with_user_id uid) defaultCategories) = 10
   \<and> length (filter (\<lambda>c. default_category.type c = Expense)
        (map (with_user_id uid) defaultCategories)) = 6
   \<and> length (filter (\<lambda>c. default_category.type c = Income)
        (map (with_user_id uid) defaultCategories)) = 4
   \<and> list_all (\<lambda>c. category_insert.user_id c = uid \<and> default_category.name c \<noteq> []
        \<and> default_category.color c \<noteq> [] \<and> default_category.icon c \<noteq> [])
        (map (with_user_id uid) defaultCategories)
   \<and> distinct (map default_category.name defaultCategories)"
  by (simp add: defaultCategories_def with_user_id_def)

text \<open>
  C5, as amended. On the load of the dashboard of a signed-in user the insert of the
  starter set is sent exactly once when the select of the categories of the user returns
  no row or fails, and is not sent when the select succeeds and the user has a category;
  without a user nothing is sent. The starter set is the ten rows of the literal, six
  expense and four income categories, each with a name, a kind, a color and an icon, under
  the id of the user.
\<close>

theorem initializeDefaultCategories_seeding:
  "initializeDefaultCategories_on_load ok db uid =
     (if ok \<and> filter (\<lambda>c. categories_row.user_id c = uid) (categories_table db) \<noteq> []
      then []
      else [map (with_user_id uid) defaultCategories])
   \<and> initializeDefaultCategories None existingCategories = []
   \<and> length (map (with_user_id uid) defaultCategories) = 10
   \<and> length (filter (\<lambda>c. default_category.type c = Expense)
        (map (with_user_id uid) defaultCategories)) = 6
   \<and> length (filter (\<lambda>c. default_category.type c = Income)
        (map (with_user_id uid) defaultCategories)) = 4
   \<and> list_all (\<lambda>c. category_insert.user_id c = uid \<and> default_category.name c \<noteq> []
        \<and> default_category.color c \<noteq> [] \<and> default_category.icon c \<noteq> [])
        (map (with_user_id uid) defaultCategories)"
proof -
  have "initializeDefaultCategories_on_load ok db uid =
     (if ok \<and> filter (\<lambda>c. categories_row.user_id c = uid) (categories_table db) \<noteq> []
      then []
      else [map (with_user_id uid) defaultCategories])"
    by (cases "filter (\<lambda>c. categories_row.user_id c = uid) (categories_table db)")
      (simp_all add: initializeDefaultCategories_on_load_def initializeDefaultCategories_def
        select_category_ids_def)
  moreover have "initializeDefaultCategories None existingCategories = []"
    by (simp add: initializeDefaultCategories_def)
  ultimately show ?thesis using defaultCategories_counts [of uid] by simp
qed

text \<open>
  In the example store the user \<open>u1\<close> has two categories; when the select fails, the
  insert of the starter set is sent all the same.
\<close>

theorem seeding_after_failed_select:
  "filter (\<lambda>c. categories_row.user_id c = ''u1'') (categories_table example_db)
     = [example_C1, example_C2]
   \<and> initializeDefaultCategories_on_load False example_db ''u1''
     = [map (with_user_id ''u1'') defaultCategories]
   \<and> initializeDefaultCategories_on_load False example_db ''u1'' \<noteq> []"
  by (simp add: initializeDefaultCategories_on_load_def initializeDefaultCategories_def
      example_db_defs)

section \<open>Switching the kind in the form\<close>

text \<open>
  C6, as amended. After a switch to another kind whose select succeeds, the candidate
  list is the list of the categories of the user of the new kind. The selection becomes
  the first candidate only when a new transaction is being created, nothing was selected
  and there is a candidate; in every other case the selection keeps its value, whether or
  not that category is of the new kind. When the select fails only the kind changes.
\<close>

theorem switch_type_selection:
  assumes "k \<noteq> modal.type m"
  shows "modal.type (switch_type True collate db uid editTransaction k m) = k
   \<and> mset (categories (switch_type True collate db uid editTransaction k m)) =
       mset (filter (\<lambda>c. categories_row.type c = k \<and> categories_row.user_id c = uid)
              (categories_table db))
   \<and> list_all (\<lambda>c. categories_row.type c = k)
       (categories (switch_type True collate db uid editTransaction k m))
   \<and> categoryId (switch_type True collate db uid editTransaction k m) =
       (case categories (switch_type True collate db uid editTransaction k m) of
          [] \<Rightarrow> categoryId m
        | c # _ \<Rightarrow> if editTransaction = None \<and> categoryId m = []
                   then categories_row.id c else categoryId m)
   \<and> switch_type False collate db uid editTransaction k m = m\<lparr>modal.type := k\<rparr>"
proof -
  let ?q = "loadCategories_query collate db uid k"
  let ?m = "switch_type True collate db uid editTransaction k m"
  have q: "mset ?q = mset (filter (\<lambda>c. categories_row.type c = k \<and> categories_row.user_id c = uid)
              (categories_table db))"
    by (simp add: loadCategories_query_def mset_stable_sort conj_commute)
  have m: "?m = loadCategories (Some ?q) editTransaction (m\<lparr>modal.type := k\<rparr>)"
    using assms by (simp add: switch_type_def Let_def)
  have c: "categories ?m = ?q"
    unfolding m by (simp add: loadCategories_def Let_def split: list.splits)
  have t: "modal.type ?m = k"
    unfolding m by (simp add: loadCategories_def Let_def split: list.splits)
  have "set ?q = set (filter (\<lambda>c. categories_row.type c = k \<and> categories_row.user_id c = uid)
              (categories_table db))"
    using q by (metis set_mset_mset)
  then have a: "list_all (\<lambda>c. categories_row.type c = k) ?q"
    by (simp add: list_all_iff)
  have s: "categoryId ?m =
       (case ?q of
          [] \<Rightarrow> categoryId m
        | c # _ \<Rightarrow> if editTransaction = None \<and> categoryId m = []
                   then categories_row.id c else categoryId m)"
    unfolding m by (auto simp: loadCategories_def Let_def split: list.splits)
  have f: "switch_type False collate db uid editTransaction k m = m\<lparr>modal.type := k\<rparr>"
    using assms by (simp add: switch_type_def loadCategories_def Let_def)
  from q a s f t show ?thesis unfolding c by simp
qed

text \<open>
  A switch from expense to income in the example store with nothing selected: the first
  income category becomes the selection.
\<close>

theorem switch_type_selection_witness:
  "modal.type (switch_type True (\<lambda>a b. 0) example_db ''u1'' None Income (example_modal\<lparr>categoryId := []\<rparr>)) = Income
   \<and> categories (switch_type True (\<lambda>a b. 0) example_db ''u1'' None Income (example_modal\<lparr>categoryId := []\<rparr>))
       = [example_C2]
   \<and> categoryId (switch_type True (\<lambda>a b. 0) example_db ''u1'' None Income (example_modal\<lparr>categoryId := []\<rparr>))
       = ''C2''"
  using switch_type_selection [of Income "example_modal\<lparr>categoryId := []\<rparr>" "\<lambda>a b. 0" example_db "''u1''" None]
  by (simp add: example_modal_def example_db_defs switch_type_def loadCategories_def
      loadCategories_query_def stable_sort_def Let_def)

text \<open>
  The same switch with the expense category \<open>C1\<close> selected: the candidates become the
  income categories and the selection stays \<open>C1\<close>, which is not among them.
\<close>

theorem switch_type_keeps_stale_selection:
  "switch_type True (\<lambda>a b. 0) example_db ''u1'' None Income example_modal
     = \<lparr>modal.type = Income, categoryId = ''C1'', categories = [example_C2]\<rparr>
   \<and> categoryId example_modal = ''C1''
   \<and> categories_row.type example_C1 = Expense
   \<and> ''C1'' \<notin> categories_row.id ` set [example_C2]
   \<and> ''C1'' \<noteq> []"
  by (simp add: example_modal_def example_db_defs switch_type_def loadCategories_def
      loadCategories_query_def stable_sort_def Let_def)

end
